theory Spec2Isabelle
  imports Complex_Main
begin

section \<open>The wrapper around the geodetic engine\<close>

text \<open>
  The repository is one C function, \<open>epsg4979_from_epsg9705\<close>, which drives the PROJ
  library through one acquire / resolve / apply / release cycle. The library is not part
  of the repository, so it is a parameter of the model: a record of state transformers
  over a library state \<open>'s\<close> that nothing is assumed about. Context handles are values of
  \<open>'c\<close>, transformation handles values of \<open>'p\<close>. A C \<open>double\<close> is a value of \<open>'d\<close>; the
  two arithmetic operations and the three constants the function uses are parameters as
  well, so every theorem holds for whatever the machine's multiplication and division
  compute.
\<close>

subsection \<open>Data\<close>

text \<open>
  The memory the two pointers point into is one memory of doubles. A pointer is the
  address of a double, counted in doubles; the null pointer is address 0. Nothing keeps
  the two pointers of a call apart: the structure behind \<open>output\<close> may be the one behind
  \<open>input\<close>, or overlap it at a distance of one or two doubles. (An overlap at a distance
  that is not a whole number of doubles is outside this memory.)
\<close>

type_synonym ptr = nat

definition NULL :: ptr where
  "NULL = 0"

text \<open>\<open>typedef struct { double lat; double lon; double alt; } EPSG9705;\<close>\<close>

record 'd EPSG9705 =
  lat :: 'd
  lon :: 'd
  alt :: 'd

text \<open>\<open>typedef struct { double lat; double lon; double alt; } EPSG4979;\<close>\<close>

record 'd EPSG4979 =
  lat :: 'd
  lon :: 'd
  alt :: 'd

datatype field = Lat | Lon | Alt

text \<open>
  Both structures are three doubles in a row, in the order of their declaration: \<open>lat\<close>
  at the address of the structure, \<open>lon\<close> one double further, \<open>alt\<close> two.
\<close>

fun offset :: "field \<Rightarrow> nat" where
  "offset Lat = 0"
| "offset Lon = 1"
| "offset Alt = 2"

text \<open>
  Modelled from the spec: \<open>proj.h\<close> is not in the repository. \<open>PJ_COORD\<close> is the
  library's coordinate of four doubles; the function reads it through the \<open>lpzt\<close> view
  (\<open>c_out.lpzt.phi\<close>, \<open>c_out.lpzt.lam\<close>, \<open>c_out.lpzt.z\<close>), whose components are, in
  order, longitude, latitude, height and the fourth coordinate. \<open>proj_coord\<close> fills the
  four components in the order of its arguments.
\<close>

record 'd PJ_COORD =
  lpzt_lam :: 'd
  lpzt_phi :: 'd
  lpzt_z :: 'd
  lpzt_t :: 'd

definition proj_coord :: "'d \<Rightarrow> 'd \<Rightarrow> 'd \<Rightarrow> 'd \<Rightarrow> 'd PJ_COORD" where
  "proj_coord x y z t = \<lparr>lpzt_lam = x, lpzt_phi = y, lpzt_z = z, lpzt_t = t\<rparr>"

datatype PJ_DIRECTION = PJ_FWD | PJ_IDENT | PJ_INV

text \<open>
  The arithmetic of \<open>double\<close> that the function uses: \<open>*\<close>, \<open>/\<close>, and the constants
  \<open>M_PI\<close>, \<open>180.0\<close> and \<open>0\<close> (the \<open>int\<close> literal converted to \<open>double\<close>).
\<close>

record 'd double_ops =
  fmul :: "'d \<Rightarrow> 'd \<Rightarrow> 'd"
  fdiv :: "'d \<Rightarrow> 'd \<Rightarrow> 'd"
  M_PI :: 'd
  lit_180 :: 'd
  lit_0 :: 'd

text \<open>
  The library, as the function uses it. Every entry takes the library state and returns
  the new one, so an entry may depend on everything that happened before.
\<close>

record ('s, 'c, 'p, 'd) engine =
  lib_context_create :: "'s \<Rightarrow> 'c option \<times> 's"
  lib_create_crs_to_crs :: "'c \<Rightarrow> string \<Rightarrow> string \<Rightarrow> ptr \<Rightarrow> 's \<Rightarrow> 'p option \<times> 's"
  lib_trans :: "'p \<Rightarrow> PJ_DIRECTION \<Rightarrow> 'd PJ_COORD \<Rightarrow> 's \<Rightarrow> 'd PJ_COORD \<times> 's"
  lib_errno :: "'p \<Rightarrow> 's \<Rightarrow> int \<times> 's"
  lib_destroy :: "'p \<Rightarrow> 's \<Rightarrow> 's"
  lib_context_destroy :: "'c \<Rightarrow> 's \<Rightarrow> 's"

subsection \<open>Effects\<close>

text \<open>
  What a call of the function does to the world: it calls the library, reads the input
  structure and writes the output structure. Each of these is recorded, in order, with
  its arguments and its result.
\<close>

datatype ('c, 'p, 'd) event =
    Context_create "'c option"
  | Create_crs_to_crs 'c string string ptr "'p option"
  | Trans 'p PJ_DIRECTION "'d PJ_COORD" "'d PJ_COORD"
  | Errno 'p int
  | Destroy 'p
  | Context_destroy 'c
  | Load ptr field 'd
  | Store ptr field 'd

record ('s, 'c, 'p, 'd) world =
  lib_state :: 's
  trace :: "('c, 'p, 'd) event list"
  mem :: "ptr \<Rightarrow> 'd"

definition emit :: "('c, 'p, 'd) event \<Rightarrow> ('s, 'c, 'p, 'd) world \<Rightarrow> ('s, 'c, 'p, 'd) world" where
  "emit e w = w\<lparr>trace := trace w @ [e]\<rparr>"

text \<open>\<open>input->f\<close>\<close>

definition load9705 :: "ptr \<Rightarrow> field \<Rightarrow> ('s, 'c, 'p, 'd) world \<Rightarrow> 'd \<times> ('s, 'c, 'p, 'd) world" where
  "load9705 p f w = (let v = mem w (p + offset f) in (v, emit (Load p f v) w))"

text \<open>\<open>output->f = v\<close>\<close>

definition store4979 :: "ptr \<Rightarrow> field \<Rightarrow> 'd \<Rightarrow> ('s, 'c, 'p, 'd) world \<Rightarrow> ('s, 'c, 'p, 'd) world" where
  "store4979 p f v w =
     emit (Store p f v) (w\<lparr>mem := (mem w)(p + offset f := v)\<rparr>)"

definition proj_context_create ::
  "('s, 'c, 'p, 'd) engine \<Rightarrow> ('s, 'c, 'p, 'd) world \<Rightarrow> 'c option \<times> ('s, 'c, 'p, 'd) world" where
  "proj_context_create E w =
     (case lib_context_create E (lib_state w) of
        (r, s) \<Rightarrow> (r, emit (Context_create r) (w\<lparr>lib_state := s\<rparr>)))"

definition proj_create_crs_to_crs ::
  "('s, 'c, 'p, 'd) engine \<Rightarrow> 'c \<Rightarrow> string \<Rightarrow> string \<Rightarrow> ptr \<Rightarrow> ('s, 'c, 'p, 'd) world
     \<Rightarrow> 'p option \<times> ('s, 'c, 'p, 'd) world" where
  "proj_create_crs_to_crs E ctx src tgt area w =
     (case lib_create_crs_to_crs E ctx src tgt area (lib_state w) of
        (r, s) \<Rightarrow> (r, emit (Create_crs_to_crs ctx src tgt area r) (w\<lparr>lib_state := s\<rparr>)))"

definition proj_trans ::
  "('s, 'c, 'p, 'd) engine \<Rightarrow> 'p \<Rightarrow> PJ_DIRECTION \<Rightarrow> 'd PJ_COORD \<Rightarrow> ('s, 'c, 'p, 'd) world
     \<Rightarrow> 'd PJ_COORD \<times> ('s, 'c, 'p, 'd) world" where
  "proj_trans E P dir c w =
     (case lib_trans E P dir c (lib_state w) of
        (r, s) \<Rightarrow> (r, emit (Trans P dir c r) (w\<lparr>lib_state := s\<rparr>)))"

definition proj_errno ::
  "('s, 'c, 'p, 'd) engine \<Rightarrow> 'p \<Rightarrow> ('s, 'c, 'p, 'd) world \<Rightarrow> int \<times> ('s, 'c, 'p, 'd) world" where
  "proj_errno E P w =
     (case lib_errno E P (lib_state w) of
        (r, s) \<Rightarrow> (r, emit (Errno P r) (w\<lparr>lib_state := s\<rparr>)))"

definition proj_destroy ::
  "('s, 'c, 'p, 'd) engine \<Rightarrow> 'p \<Rightarrow> ('s, 'c, 'p, 'd) world \<Rightarrow> ('s, 'c, 'p, 'd) world" where
  "proj_destroy E P w = emit (Destroy P) (w\<lparr>lib_state := lib_destroy E P (lib_state w)\<rparr>)"

definition proj_context_destroy ::
  "('s, 'c, 'p, 'd) engine \<Rightarrow> 'c \<Rightarrow> ('s, 'c, 'p, 'd) world \<Rightarrow> ('s, 'c, 'p, 'd) world" where
  "proj_context_destroy E ctx w =
     emit (Context_destroy ctx) (w\<lparr>lib_state := lib_context_destroy E ctx (lib_state w)\<rparr>)"

subsection \<open>The function\<close>

text \<open>\<open>x * M_PI / 180.0\<close>, which C reads as \<open>(x * M_PI) / 180.0\<close>.\<close>

definition to_radians :: "'d double_ops \<Rightarrow> 'd \<Rightarrow> 'd" where
  "to_radians A x = fdiv A (fmul A x (M_PI A)) (lit_180 A)"

text \<open>\<open>x * 180.0 / M_PI\<close>, which C reads as \<open>(x * 180.0) / M_PI\<close>.\<close>

definition to_degrees :: "'d double_ops \<Rightarrow> 'd \<Rightarrow> 'd" where
  "to_degrees A x = fdiv A (fmul A x (lit_180 A)) (M_PI A)"

text \<open>
  \<open>int epsg4979_from_epsg9705(const EPSG9705 *input, EPSG4979 *output)\<close>: the status
  and the world after the call.
\<close>

definition epsg4979_from_epsg9705 ::
  "('s, 'c, 'p, 'd) engine \<Rightarrow> 'd double_ops \<Rightarrow> ptr \<Rightarrow> ptr \<Rightarrow> ('s, 'c, 'p, 'd) world
     \<Rightarrow> int \<times> ('s, 'c, 'p, 'd) world" where
  "epsg4979_from_epsg9705 E A input output w0 =
     (if input = NULL \<or> output = NULL then (- 1, w0)
      else
        case proj_context_create E w0 of
          (None, w1) \<Rightarrow> (- 2, w1)
        | (Some ctx, w1) \<Rightarrow>
            (case proj_create_crs_to_crs E ctx ''EPSG:9705'' ''EPSG:4979'' NULL w1 of
               (None, w2) \<Rightarrow> (- 3, proj_context_destroy E ctx w2)
             | (Some P, w2) \<Rightarrow>
                 (case load9705 input Lat w2 of (in_lat, w3) \<Rightarrow>
                  case load9705 input Lon w3 of (in_lon, w4) \<Rightarrow>
                  case load9705 input Alt w4 of (in_alt, w5) \<Rightarrow>
                  let lat_rad = to_radians A in_lat;
                      lon_rad = to_radians A in_lon;
                      c_in = proj_coord lon_rad lat_rad in_alt (lit_0 A)
                  in
                  case proj_trans E P PJ_FWD c_in w5 of (c_out, w6) \<Rightarrow>
                  case proj_errno E P w6 of (err, w7) \<Rightarrow>
                  if err \<noteq> 0 then (- 4, proj_context_destroy E ctx (proj_destroy E P w7))
                  else
                    let w8 = store4979 output Lat (to_degrees A (lpzt_phi c_out)) w7;
                        w9 = store4979 output Lon (to_degrees A (lpzt_lam c_out)) w8;
                        w10 = store4979 output Alt (lpzt_z c_out) w9
                    in (0, proj_context_destroy E ctx (proj_destroy E P w10)))))"

subsection \<open>Observing a call\<close>

text \<open>The events a call adds to the trace: those of \<open>w'\<close> after the ones \<open>w\<close> had.\<close>

definition new_events ::
  "('s, 'c, 'p, 'd) world \<Rightarrow> ('s, 'c, 'p, 'd) world \<Rightarrow> ('c, 'p, 'd) event list" where
  "new_events w w' = drop (length (trace w)) (trace w')"

text \<open>The memory at \<open>p\<close> read as a structure of either type.\<close>

definition mem9705 :: "('s, 'c, 'p, 'd) world \<Rightarrow> ptr \<Rightarrow> 'd EPSG9705" where
  "mem9705 w p =
     \<lparr>EPSG9705.lat = mem w (p + offset Lat),
      EPSG9705.lon = mem w (p + offset Lon),
      EPSG9705.alt = mem w (p + offset Alt)\<rparr>"

definition mem4979 :: "('s, 'c, 'p, 'd) world \<Rightarrow> ptr \<Rightarrow> 'd EPSG4979" where
  "mem4979 w p =
     \<lparr>EPSG4979.lat = mem w (p + offset Lat),
      EPSG4979.lon = mem w (p + offset Lon),
      EPSG4979.alt = mem w (p + offset Alt)\<rparr>"

text \<open>The addresses a structure at \<open>p\<close> takes up.\<close>

definition cells :: "ptr \<Rightarrow> ptr set" where
  "cells p = {p + offset Lat, p + offset Lon, p + offset Alt}"

text \<open>A memory with the structure \<open>r\<close> put at \<open>p\<close>.\<close>

definition put9705 :: "ptr \<Rightarrow> 'd EPSG9705 \<Rightarrow> (ptr \<Rightarrow> 'd) \<Rightarrow> (ptr \<Rightarrow> 'd)" where
  "put9705 p r m =
     m(p + offset Lat := EPSG9705.lat r,
       p + offset Lon := EPSG9705.lon r,
       p + offset Alt := EPSG9705.alt r)"

text \<open>The coordinate built at line 51 from the input structure \<open>r\<close>.\<close>

definition c_in_of :: "'d double_ops \<Rightarrow> 'd EPSG9705 \<Rightarrow> 'd PJ_COORD" where
  "c_in_of A r =
     proj_coord (to_radians A (EPSG9705.lon r)) (to_radians A (EPSG9705.lat r))
       (EPSG9705.alt r) (lit_0 A)"

fun is_store :: "('c, 'p, 'd) event \<Rightarrow> bool" where
  "is_store (Store p f v) = True"
| "is_store e = False"

fun is_trans :: "('c, 'p, 'd) event \<Rightarrow> bool" where
  "is_trans (Trans P dir a b) = True"
| "is_trans e = False"

text \<open>
  The error taxonomy of the specification, and the status code of each kind as the
  function's header comment lists them.
\<close>

datatype error =
    InvalidArgument
  | ContextCreationError
  | TransformationResolutionError
  | TransformationApplyError

fun status_of :: "error \<Rightarrow> int" where
  "status_of InvalidArgument = - 1"
| "status_of ContextCreationError = - 2"
| "status_of TransformationResolutionError = - 3"
| "status_of TransformationApplyError = - 4"

text \<open>
  The resource discipline of the specification, as a ledger run over the events of a
  call: the live contexts, and the live transformations, each with the context it was
  resolved from. An event that breaks the discipline has no ledger: resolving against a
  context that is not live, applying or querying a transformation that is not live,
  releasing what is not live, and releasing a context while a transformation resolved
  from it is live.
\<close>

type_synonym ('c, 'p) ledger = "'c list \<times> ('p \<times> 'c) list"

fun release :: "'p \<Rightarrow> ('p \<times> 'c) list \<Rightarrow> ('p \<times> 'c) list" where
  "release P [] = []"
| "release P ((Q, c) # ps) = (if Q = P then ps else (Q, c) # release P ps)"

fun account :: "('c, 'p, 'd) event \<Rightarrow> ('c, 'p) ledger \<Rightarrow> ('c, 'p) ledger option" where
  "account (Context_create None) (cs, ps) = Some (cs, ps)"
| "account (Context_create (Some c)) (cs, ps) = Some (c # cs, ps)"
| "account (Create_crs_to_crs c src tgt area r) (cs, ps) =
     (if c \<in> set cs then Some (cs, case r of None \<Rightarrow> ps | Some P \<Rightarrow> (P, c) # ps) else None)"
| "account (Trans P dir a b) (cs, ps) = (if P \<in> fst ` set ps then Some (cs, ps) else None)"
| "account (Errno P e) (cs, ps) = (if P \<in> fst ` set ps then Some (cs, ps) else None)"
| "account (Destroy P) (cs, ps) =
     (if P \<in> fst ` set ps then Some (cs, release P ps) else None)"
| "account (Context_destroy c) (cs, ps) =
     (if c \<in> set cs \<and> c \<notin> snd ` set ps then Some (remove1 c cs, ps) else None)"
| "account (Load p f v) (cs, ps) = Some (cs, ps)"
| "account (Store p f v) (cs, ps) = Some (cs, ps)"

fun audit :: "('c, 'p, 'd) event list \<Rightarrow> ('c, 'p) ledger \<Rightarrow> ('c, 'p) ledger option" where
  "audit [] l = Some l"
| "audit (e # es) l = (case account e l of None \<Rightarrow> None | Some l' \<Rightarrow> audit es l')"

subsection \<open>A sample library\<close>

text \<open>
  A small library to run the function on: its state says whether its data and its geoid
  grid can be found, and holds the error indicator of the last operation. The forward
  transformation adds an undulation of \<open>- 32\<close> metres to the height and leaves the
  horizontal components as they are; a height below \<open>- 1000\<close> metres is outside its
  grid and sets the error indicator. Exact real arithmetic stands for the machine's.
\<close>

record sample_lib =
  data_found :: bool
  grid_found :: bool
  last_error :: int

definition sample_engine :: "(sample_lib, nat, nat, real) engine" where
  "sample_engine =
     \<lparr>lib_context_create = (\<lambda>s. (if data_found s then Some 1 else None, s)),
      lib_create_crs_to_crs = (\<lambda>ctx src tgt area s. (if grid_found s then Some 2 else None, s)),
      lib_trans = (\<lambda>P dir c s.
         if lpzt_z c < - 1000 then (c, s\<lparr>last_error := 1\<rparr>)
         else (c\<lparr>lpzt_z := lpzt_z c + (- 32)\<rparr>, s\<lparr>last_error := 0\<rparr>)),
      lib_errno = (\<lambda>P s. (last_error s, s)),
      lib_destroy = (\<lambda>P s. s),
      lib_context_destroy = (\<lambda>ctx s. s)\<rparr>"

definition sample_ops :: "real double_ops" where
  "sample_ops = \<lparr>fmul = (*), fdiv = (/), M_PI = pi, lit_180 = 180, lit_0 = 0\<rparr>"

text \<open>
  A world with a structure at address 8 that holds latitude 40, longitude \<open>- 74\<close> and
  height \<open>h\<close>, and zeros everywhere else.
\<close>

definition sample_world :: "bool \<Rightarrow> bool \<Rightarrow> real \<Rightarrow> (sample_lib, nat, nat, real) world" where
  "sample_world d g h =
     \<lparr>lib_state = \<lparr>data_found = d, grid_found = g, last_error = 0\<rparr>,
      trace = [],
      mem = (\<lambda>a. 0)(8 := 40, 9 := - 74, 10 := h)\<rparr>"

section \<open>The paths of the function\<close>

lemmas lib_defs =
  proj_context_create_def proj_create_crs_to_crs_def proj_trans_def proj_errno_def
  proj_destroy_def proj_context_destroy_def load9705_def store4979_def emit_def

lemma run_null:
  "input = NULL \<or> output = NULL \<Longrightarrow> epsg4979_from_epsg9705 E A input output w = (- 1, w)"
  by (simp add: epsg4979_from_epsg9705_def)

lemma run_context_failed:
  assumes "input \<noteq> NULL" and "output \<noteq> NULL"
    and "lib_context_create E (lib_state w) = (None, s1)"
  shows "epsg4979_from_epsg9705 E A input output w =
     (- 2, w\<lparr>lib_state := s1, trace := trace w @ [Context_create None]\<rparr>)"
  using assms by (simp add: epsg4979_from_epsg9705_def lib_defs)

lemma run_resolution_failed:
  assumes "input \<noteq> NULL" and "output \<noteq> NULL"
    and "lib_context_create E (lib_state w) = (Some ctx, s1)"
    and "lib_create_crs_to_crs E ctx ''EPSG:9705'' ''EPSG:4979'' NULL s1 = (None, s2)"
  shows "epsg4979_from_epsg9705 E A input output w =
     (- 3, w\<lparr>lib_state := lib_context_destroy E ctx s2,
              trace := trace w @
                [Context_create (Some ctx),
                 Create_crs_to_crs ctx ''EPSG:9705'' ''EPSG:4979'' NULL None,
                 Context_destroy ctx]\<rparr>)"
  using assms by (simp add: epsg4979_from_epsg9705_def lib_defs)

lemma run_apply_failed:
  assumes "input \<noteq> NULL" and "output \<noteq> NULL"
    and "lib_context_create E (lib_state w) = (Some ctx, s1)"
    and "lib_create_crs_to_crs E ctx ''EPSG:9705'' ''EPSG:4979'' NULL s1 = (Some P, s2)"
    and "lib_trans E P PJ_FWD (c_in_of A (mem9705 w input)) s2 = (c_out, s3)"
    and "lib_errno E P s3 = (err, s4)" and "err \<noteq> 0"
  shows "epsg4979_from_epsg9705 E A input output w =
     (- 4, w\<lparr>lib_state := lib_context_destroy E ctx (lib_destroy E P s4),
              trace := trace w @
                [Context_create (Some ctx),
                 Create_crs_to_crs ctx ''EPSG:9705'' ''EPSG:4979'' NULL (Some P),
                 Load input Lat (EPSG9705.lat (mem9705 w input)),
                 Load input Lon (EPSG9705.lon (mem9705 w input)),
                 Load input Alt (EPSG9705.alt (mem9705 w input)),
                 Trans P PJ_FWD (c_in_of A (mem9705 w input)) c_out,
                 Errno P err, Destroy P, Context_destroy ctx]\<rparr>)"
  using assms by (simp add: epsg4979_from_epsg9705_def lib_defs c_in_of_def mem9705_def Let_def)

lemma run_success:
  assumes "input \<noteq> NULL" and "output \<noteq> NULL"
    and "lib_context_create E (lib_state w) = (Some ctx, s1)"
    and "lib_create_crs_to_crs E ctx ''EPSG:9705'' ''EPSG:4979'' NULL s1 = (Some P, s2)"
    and "lib_trans E P PJ_FWD (c_in_of A (mem9705 w input)) s2 = (c_out, s3)"
    and "lib_errno E P s3 = (0, s4)"
  shows "epsg4979_from_epsg9705 E A input output w =
     (0, w\<lparr>lib_state := lib_context_destroy E ctx (lib_destroy E P s4),
            trace := trace w @
              [Context_create (Some ctx),
               Create_crs_to_crs ctx ''EPSG:9705'' ''EPSG:4979'' NULL (Some P),
               Load input Lat (EPSG9705.lat (mem9705 w input)),
               Load input Lon (EPSG9705.lon (mem9705 w input)),
               Load input Alt (EPSG9705.alt (mem9705 w input)),
               Trans P PJ_FWD (c_in_of A (mem9705 w input)) c_out,
               Errno P 0,
               Store output Lat (to_degrees A (lpzt_phi c_out)),
               Store output Lon (to_degrees A (lpzt_lam c_out)),
               Store output Alt (lpzt_z c_out),
               Destroy P, Context_destroy ctx],
            mem := (mem w)
              (output := to_degrees A (lpzt_phi c_out),
               output + 1 := to_degrees A (lpzt_lam c_out),
               output + 2 := lpzt_z c_out)\<rparr>)"
  using assms by (simp add: epsg4979_from_epsg9705_def lib_defs c_in_of_def mem9705_def Let_def)

text \<open>Every call takes one of the five paths.\<close>

lemma run_cases [case_names null context_failed resolution_failed apply_failed success]:
  obtains
    "input = NULL \<or> output = NULL"
  | s1 where "input \<noteq> NULL" and "output \<noteq> NULL"
      and "lib_context_create E (lib_state w) = (None, s1)"
  | ctx s1 s2 where "input \<noteq> NULL" and "output \<noteq> NULL"
      and "lib_context_create E (lib_state w) = (Some ctx, s1)"
      and "lib_create_crs_to_crs E ctx ''EPSG:9705'' ''EPSG:4979'' NULL s1 = (None, s2)"
  | ctx s1 P s2 c_out s3 err s4 where "input \<noteq> NULL" and "output \<noteq> NULL"
      and "lib_context_create E (lib_state w) = (Some ctx, s1)"
      and "lib_create_crs_to_crs E ctx ''EPSG:9705'' ''EPSG:4979'' NULL s1 = (Some P, s2)"
      and "lib_trans E P PJ_FWD (c_in_of A (mem9705 w input)) s2 = (c_out, s3)"
      and "lib_errno E P s3 = (err, s4)" and "err \<noteq> 0"
  | ctx s1 P s2 c_out s3 s4 where "input \<noteq> NULL" and "output \<noteq> NULL"
      and "lib_context_create E (lib_state w) = (Some ctx, s1)"
      and "lib_create_crs_to_crs E ctx ''EPSG:9705'' ''EPSG:4979'' NULL s1 = (Some P, s2)"
      and "lib_trans E P PJ_FWD (c_in_of A (mem9705 w input)) s2 = (c_out, s3)"
      and "lib_errno E P s3 = (0, s4)"
proof (cases "input = NULL \<or> output = NULL")
  case True
  then show ?thesis by (rule that(1))
next
  case nn: False
  obtain r1 s1 where c1: "lib_context_create E (lib_state w) = (r1, s1)"
    by (cases "lib_context_create E (lib_state w)")
  show ?thesis
  proof (cases r1)
    case None
    with nn c1 show ?thesis by (auto intro: that(2))
  next
    case (Some ctx)
    obtain r2 s2 where
      c2: "lib_create_crs_to_crs E ctx ''EPSG:9705'' ''EPSG:4979'' NULL s1 = (r2, s2)"
      by (cases "lib_create_crs_to_crs E ctx ''EPSG:9705'' ''EPSG:4979'' NULL s1")
    show ?thesis
    proof (cases r2)
      case None
      with nn c1 c2 Some show ?thesis by (auto intro: that(3))
    next
      case P: (Some P)
      obtain c_out s3 where
        c3: "lib_trans E P PJ_FWD (c_in_of A (mem9705 w input)) s2 = (c_out, s3)"
        by (cases "lib_trans E P PJ_FWD (c_in_of A (mem9705 w input)) s2")
      obtain err s4 where c4: "lib_errno E P s3 = (err, s4)"
        by (cases "lib_errno E P s3")
      show ?thesis
      proof (cases "err = 0")
        case True
        with nn c1 c2 Some P c3 c4 show ?thesis by (auto intro: that(5))
      next
        case False
        with nn c1 c2 Some P c3 c4 show ?thesis by (auto intro: that(4))
      qed
    qed
  qed
qed

text \<open>
  Which of the two resource failures a call with non-null pointers reports is decided by
  the library alone.
\<close>

lemma status_context_failed_iff:
  assumes "input \<noteq> NULL" and "output \<noteq> NULL"
  shows "(fst (epsg4979_from_epsg9705 E A input output w) = - 2) =
     (fst (lib_context_create E (lib_state w)) = None)"
proof (cases rule: run_cases[of input "output" _ E w A])
  case null
  with assms show ?thesis by simp
next
  case (context_failed s1)
  from run_context_failed[OF this, of A] context_failed show ?thesis by simp
next
  case (resolution_failed ctx s1 s2)
  from run_resolution_failed[OF this, of A] resolution_failed show ?thesis by simp
next
  case (apply_failed ctx s1 P s2 c_out s3 err s4)
  from run_apply_failed[OF this] apply_failed show ?thesis by simp
next
  case (success ctx s1 P s2 c_out s3 s4)
  from run_success[OF this] success show ?thesis by simp
qed

lemma status_resolution_failed_iff:
  assumes "input \<noteq> NULL" and "output \<noteq> NULL"
  shows "(fst (epsg4979_from_epsg9705 E A input output w) = - 3) =
     (\<exists>ctx s1. lib_context_create E (lib_state w) = (Some ctx, s1) \<and>
        fst (lib_create_crs_to_crs E ctx ''EPSG:9705'' ''EPSG:4979'' NULL s1) = None)"
proof (cases rule: run_cases[of input "output" _ E w A])
  case null
  with assms show ?thesis by simp
next
  case (context_failed s1)
  from run_context_failed[OF this, of A] context_failed show ?thesis by simp
next
  case (resolution_failed ctx s1 s2)
  from run_resolution_failed[OF this, of A] resolution_failed show ?thesis by simp
next
  case (apply_failed ctx s1 P s2 c_out s3 err s4)
  from run_apply_failed[OF this] apply_failed show ?thesis by simp
next
  case (success ctx s1 P s2 c_out s3 s4)
  from run_success[OF this] success show ?thesis by simp
qed

text \<open>Reading back a structure that was put into the memory.\<close>

lemma mem9705_put9705: "mem9705 (w\<lparr>mem := put9705 p r (mem w)\<rparr>) p = r"
  by (cases r) (simp add: mem9705_def put9705_def)

subsection \<open>The sample runs\<close>

lemmas sample_defs =
  sample_engine_def sample_ops_def sample_world_def NULL_def c_in_of_def proj_coord_def
  to_radians_def to_degrees_def

lemma sample_trace: "trace (sample_world d g h) = []"
  by (simp add: sample_world_def)

lemma sample_input:
  "mem9705 (sample_world d g h) 8 =
     \<lparr>EPSG9705.lat = 40, EPSG9705.lon = - 74, EPSG9705.alt = h\<rparr>"
  by (simp add: sample_world_def mem9705_def)

lemma sample_success:
  "epsg4979_from_epsg9705 sample_engine sample_ops 8 16 (sample_world True True 10) =
     (0, (sample_world True True 10)
           \<lparr>trace :=
              [Context_create (Some 1),
               Create_crs_to_crs 1 ''EPSG:9705'' ''EPSG:4979'' 0 (Some 2),
               Load 8 Lat 40, Load 8 Lon (- 74), Load 8 Alt 10,
               Trans 2 PJ_FWD
                 \<lparr>lpzt_lam = - 74 * pi / 180, lpzt_phi = 40 * pi / 180, lpzt_z = 10, lpzt_t = 0\<rparr>
                 \<lparr>lpzt_lam = - 74 * pi / 180, lpzt_phi = 40 * pi / 180, lpzt_z = - 22, lpzt_t = 0\<rparr>,
               Errno 2 0,
               Store 16 Lat 40, Store 16 Lon (- 74), Store 16 Alt (- 22),
               Destroy 2, Context_destroy 1],
            mem := (mem (sample_world True True 10))(16 := 40, 17 := - 74, 18 := - 22)\<rparr>)"
  by (simp add: epsg4979_from_epsg9705_def lib_defs sample_defs Let_def)

text \<open>The same call with the output pointer equal to the input pointer.\<close>

lemma sample_aliased:
  "epsg4979_from_epsg9705 sample_engine sample_ops 8 8 (sample_world True True 10) =
     (0, (sample_world True True 10)
           \<lparr>trace :=
              [Context_create (Some 1),
               Create_crs_to_crs 1 ''EPSG:9705'' ''EPSG:4979'' 0 (Some 2),
               Load 8 Lat 40, Load 8 Lon (- 74), Load 8 Alt 10,
               Trans 2 PJ_FWD
                 \<lparr>lpzt_lam = - 74 * pi / 180, lpzt_phi = 40 * pi / 180, lpzt_z = 10, lpzt_t = 0\<rparr>
                 \<lparr>lpzt_lam = - 74 * pi / 180, lpzt_phi = 40 * pi / 180, lpzt_z = - 22, lpzt_t = 0\<rparr>,
               Errno 2 0,
               Store 8 Lat 40, Store 8 Lon (- 74), Store 8 Alt (- 22),
               Destroy 2, Context_destroy 1],
            mem := (mem (sample_world True True 10))(8 := 40, 9 := - 74, 10 := - 22)\<rparr>)"
  by (simp add: epsg4979_from_epsg9705_def lib_defs sample_defs Let_def)

lemma sample_apply_failed:
  "epsg4979_from_epsg9705 sample_engine sample_ops 8 16 (sample_world True True (- 5000)) =
     (- 4, (sample_world True True (- 5000))
           \<lparr>lib_state := \<lparr>data_found = True, grid_found = True, last_error = 1\<rparr>,
            trace :=
              [Context_create (Some 1),
               Create_crs_to_crs 1 ''EPSG:9705'' ''EPSG:4979'' 0 (Some 2),
               Load 8 Lat 40, Load 8 Lon (- 74), Load 8 Alt (- 5000),
               Trans 2 PJ_FWD
                 \<lparr>lpzt_lam = - 74 * pi / 180, lpzt_phi = 40 * pi / 180, lpzt_z = - 5000, lpzt_t = 0\<rparr>
                 \<lparr>lpzt_lam = - 74 * pi / 180, lpzt_phi = 40 * pi / 180, lpzt_z = - 5000, lpzt_t = 0\<rparr>,
               Errno 2 1, Destroy 2, Context_destroy 1]\<rparr>)"
  by (simp add: epsg4979_from_epsg9705_def lib_defs sample_defs Let_def)

lemma sample_resolution_failed:
  "epsg4979_from_epsg9705 sample_engine sample_ops 8 16 (sample_world True False 10) =
     (- 3, (sample_world True False 10)
           \<lparr>trace :=
              [Context_create (Some 1),
               Create_crs_to_crs 1 ''EPSG:9705'' ''EPSG:4979'' 0 None,
               Context_destroy 1]\<rparr>)"
  by (simp add: epsg4979_from_epsg9705_def lib_defs sample_defs Let_def)

lemma sample_context_failed:
  "epsg4979_from_epsg9705 sample_engine sample_ops 8 16 (sample_world False True 10) =
     (- 2, (sample_world False True 10)\<lparr>trace := [Context_create None]\<rparr>)"
  by (simp add: epsg4979_from_epsg9705_def lib_defs sample_defs Let_def)

lemma sample_null:
  "epsg4979_from_epsg9705 sample_engine sample_ops 0 16 (sample_world True True 10) =
     (- 1, sample_world True True 10)"
  by (simp add: epsg4979_from_epsg9705_def NULL_def)

section \<open>Properties of the function\<close>

text \<open>
  C4. Null-input rejection: when the input pointer or the output pointer is null, the
  function returns the status of \<open>InvalidArgument\<close> and leaves the world as it was: no
  library call (so no context and no transformation is acquired), no read, no write.
  Moreover no call, on any path, reads or writes through a null pointer.
\<close>

theorem null_pointer_rejected:
  "(input = NULL \<or> output = NULL \<longrightarrow>
      epsg4979_from_epsg9705 E A input output w = (status_of InvalidArgument, w)) \<and>
   (\<forall>f v. Load NULL f v \<notin> set (new_events w (snd (epsg4979_from_epsg9705 E A input output w))) \<and>
          Store NULL f v \<notin> set (new_events w (snd (epsg4979_from_epsg9705 E A input output w))))"
proof (cases rule: run_cases[of input "output" _ E w A])
  case null
  then show ?thesis by (simp add: run_null new_events_def)
next
  case (context_failed s1)
  then show ?thesis by (simp add: run_context_failed new_events_def)
next
  case (resolution_failed ctx s1 s2)
  then show ?thesis by (simp add: run_resolution_failed new_events_def)
next
  case (apply_failed ctx s1 P s2 c_out s3 err s4)
  then show ?thesis by (simp add: run_apply_failed new_events_def)
next
  case (success ctx s1 P s2 c_out s3 s4)
  then show ?thesis by (simp add: run_success new_events_def)
qed

theorem null_pointer_rejected_witness:
  "epsg4979_from_epsg9705 sample_engine sample_ops NULL 16 (sample_world True True 10) =
     (- 1, sample_world True True 10) \<and>
   epsg4979_from_epsg9705 sample_engine sample_ops 8 NULL (sample_world True True 10) =
     (- 1, sample_world True True 10) \<and>
   Load NULL Lat 40 \<notin> set (new_events (sample_world True True 10)
     (snd (epsg4979_from_epsg9705 sample_engine sample_ops 8 16 (sample_world True True 10))))"
  using null_pointer_rejected [of NULL 16 sample_engine sample_ops "sample_world True True 10"]
    null_pointer_rejected [of 8 NULL sample_engine sample_ops "sample_world True True 10"]
    null_pointer_rejected [of 8 16 sample_engine sample_ops "sample_world True True 10"]
  by simp

text \<open>
  C2. The status is 0 or the code of one of the four kinds of error, the codes are
  negative and distinct, and each value is returned in exactly one situation:
  \<open>InvalidArgument\<close> when a pointer is null; \<open>ContextCreationError\<close> when the context
  creation returned no context; \<open>TransformationResolutionError\<close> when the resolution of
  EPSG:9705 to EPSG:4979 returned no transformation; \<open>TransformationApplyError\<close> when
  the error indicator read back was not 0; and 0 when it was 0. The indicator is read from
  the transformation right after the forward transformation. With status 0 the output
  structure holds the three components computed from the transformation's result.
\<close>

theorem status_codes:
  assumes "epsg4979_from_epsg9705 E A input output w = (st, w')"
  shows "(st = 0 \<or> (\<exists>e. st = status_of e)) \<and>
    (\<forall>e. status_of e < 0) \<and> inj status_of \<and>
    ((st = status_of InvalidArgument) = (input = NULL \<or> output = NULL)) \<and>
    ((st = status_of ContextCreationError) = (Context_create None \<in> set (new_events w w'))) \<and>
    ((st = status_of TransformationResolutionError) =
       (\<exists>ctx. Create_crs_to_crs ctx ''EPSG:9705'' ''EPSG:4979'' NULL None \<in> set (new_events w w'))) \<and>
    ((st = status_of TransformationApplyError) =
       (\<exists>P err. err \<noteq> 0 \<and> Errno P err \<in> set (new_events w w'))) \<and>
    ((st = 0) = (\<exists>P. Errno P 0 \<in> set (new_events w w'))) \<and>
    (\<forall>P err. Errno P err \<in> set (new_events w w') \<longrightarrow>
       (\<exists>pre c_in c_out post.
          new_events w w' = pre @ Trans P PJ_FWD c_in c_out # Errno P err # post)) \<and>
    (st = 0 \<longrightarrow>
       (\<exists>P c_in c_out. Trans P PJ_FWD c_in c_out \<in> set (new_events w w') \<and>
          mem4979 w' output =
            \<lparr>EPSG4979.lat = to_degrees A (lpzt_phi c_out),
             EPSG4979.lon = to_degrees A (lpzt_lam c_out),
             EPSG4979.alt = lpzt_z c_out\<rparr>))"
proof -
  have codes: "(\<forall>e. status_of e < 0) \<and> inj status_of"
  proof
    show "\<forall>e. status_of e < 0"
    proof
      fix e show "status_of e < 0" by (cases e) simp_all
    qed
    show "inj status_of"
    proof (rule injI)
      fix a b assume "status_of a = status_of b"
      then show "a = b" by (cases a; cases b) simp_all
    qed
  qed
  have ex': "(\<exists>e. k = status_of e) = (k = - 1 \<or> k = - 2 \<or> k = - 3 \<or> k = - 4)" for k
  proof
    assume "\<exists>e. k = status_of e"
    then obtain e where "k = status_of e" ..
    then show "k = - 1 \<or> k = - 2 \<or> k = - 3 \<or> k = - 4" by (cases e) simp_all
  next
    assume "k = - 1 \<or> k = - 2 \<or> k = - 3 \<or> k = - 4"
    then show "\<exists>e. k = status_of e"
      using status_of.simps by metis
  qed
  have ex'': "(\<exists>e. status_of e = k) = (k = - 1 \<or> k = - 2 \<or> k = - 3 \<or> k = - 4)" for k
    using ex'[of k] by (simp add: eq_commute)
  note ex = ex' ex''
  show ?thesis
  proof (cases rule: run_cases[of input "output" _ E w A])
    case null
    with assms have "st = - 1" and "w' = w" by (simp_all add: run_null)
    with null codes show ?thesis by (simp add: new_events_def ex)
  next
    case (context_failed s1)
    from run_context_failed[OF this, of A] assms
    have "st = - 2" and "new_events w w' = [Context_create None]"
      by (simp_all add: new_events_def)
    with context_failed codes show ?thesis by (simp add: ex)
  next
    case (resolution_failed ctx s1 s2)
    from run_resolution_failed[OF this, of A] assms
    have "st = - 3" and "new_events w w' =
        [Context_create (Some ctx),
         Create_crs_to_crs ctx ''EPSG:9705'' ''EPSG:4979'' NULL None, Context_destroy ctx]"
      by (simp_all add: new_events_def)
    with resolution_failed codes show ?thesis by (simp add: ex)
  next
    case (apply_failed ctx s1 P s2 c_out s3 err s4)
    from run_apply_failed[OF this] assms
    have st: "st = - 4" and ev: "new_events w w' =
        [Context_create (Some ctx),
         Create_crs_to_crs ctx ''EPSG:9705'' ''EPSG:4979'' NULL (Some P),
         Load input Lat (EPSG9705.lat (mem9705 w input)),
         Load input Lon (EPSG9705.lon (mem9705 w input)),
         Load input Alt (EPSG9705.alt (mem9705 w input))] @
         Trans P PJ_FWD (c_in_of A (mem9705 w input)) c_out # Errno P err #
         [Destroy P, Context_destroy ctx]"
      by (simp_all add: new_events_def)
    have "\<exists>pre c_in c_out post.
        new_events w w' = pre @ Trans P PJ_FWD c_in c_out # Errno P err # post"
      using ev by blast
    with st ev apply_failed codes show ?thesis by (simp add: ex)
  next
    case (success ctx s1 P s2 c_out s3 s4)
    from run_success[OF this] assms
    have st: "st = 0" and ev: "new_events w w' =
        [Context_create (Some ctx),
         Create_crs_to_crs ctx ''EPSG:9705'' ''EPSG:4979'' NULL (Some P),
         Load input Lat (EPSG9705.lat (mem9705 w input)),
         Load input Lon (EPSG9705.lon (mem9705 w input)),
         Load input Alt (EPSG9705.alt (mem9705 w input))] @
         Trans P PJ_FWD (c_in_of A (mem9705 w input)) c_out # Errno P 0 #
         [Store output Lat (to_degrees A (lpzt_phi c_out)),
          Store output Lon (to_degrees A (lpzt_lam c_out)),
          Store output Alt (lpzt_z c_out), Destroy P, Context_destroy ctx]"
      and mem: "mem4979 w' output =
          \<lparr>EPSG4979.lat = to_degrees A (lpzt_phi c_out),
           EPSG4979.lon = to_degrees A (lpzt_lam c_out),
           EPSG4979.alt = lpzt_z c_out\<rparr>"
      by (simp_all add: new_events_def mem4979_def)
    have dec: "\<exists>pre c_in c_out post.
        new_events w w' = pre @ Trans P PJ_FWD c_in c_out # Errno P 0 # post"
      using ev by blast
    have pop: "\<exists>P c_in c_out. Trans P PJ_FWD c_in c_out \<in> set (new_events w w') \<and>
          mem4979 w' output =
            \<lparr>EPSG4979.lat = to_degrees A (lpzt_phi c_out),
             EPSG4979.lon = to_degrees A (lpzt_lam c_out),
             EPSG4979.alt = lpzt_z c_out\<rparr>"
      using ev mem by auto
    from st success codes dec pop show ?thesis by (simp add: ex ev) 
  qed
qed

theorem status_codes_witness:
  "fst (epsg4979_from_epsg9705 sample_engine sample_ops 8 16 (sample_world True True 10)) = 0 \<and>
   (\<exists>P c_in c_out.
      Trans P PJ_FWD c_in c_out \<in> set (new_events (sample_world True True 10)
        (snd (epsg4979_from_epsg9705 sample_engine sample_ops 8 16 (sample_world True True 10)))) \<and>
      mem4979 (snd (epsg4979_from_epsg9705 sample_engine sample_ops 8 16
          (sample_world True True 10))) 16 =
        \<lparr>EPSG4979.lat = to_degrees sample_ops (lpzt_phi c_out),
         EPSG4979.lon = to_degrees sample_ops (lpzt_lam c_out),
         EPSG4979.alt = lpzt_z c_out\<rparr>) \<and>
   fst (epsg4979_from_epsg9705 sample_engine sample_ops 8 16 (sample_world True True (- 5000))) =
     status_of TransformationApplyError \<and>
   (\<exists>P err. err \<noteq> 0 \<and> Errno P err \<in> set (new_events (sample_world True True (- 5000))
      (snd (epsg4979_from_epsg9705 sample_engine sample_ops 8 16
         (sample_world True True (- 5000))))))"
proof -
  have ok: "fst (epsg4979_from_epsg9705 sample_engine sample_ops 8 16
      (sample_world True True 10)) = 0"
    by (simp add: sample_success)
  have bad: "fst (epsg4979_from_epsg9705 sample_engine sample_ops 8 16
      (sample_world True True (- 5000))) = status_of TransformationApplyError"
    by (simp add: sample_apply_failed)
  from ok bad
    status_codes [of sample_engine sample_ops 8 16 "sample_world True True 10",
      OF surjective_pairing]
    status_codes [of sample_engine sample_ops 8 16 "sample_world True True (- 5000)",
      OF surjective_pairing]
  show ?thesis by simp
qed

text \<open>
  C3. Atomicity of the output. With a status other than 0 the call stores nothing: its
  events hold no store and the memory is what it was. With status 0 the call stores
  exactly three times, into the latitude, the longitude and the height of the output
  structure, which then holds the three values stored, and no other address of the memory
  changes.
\<close>

theorem output_all_or_nothing:
  assumes "epsg4979_from_epsg9705 E A input output w = (st, w')"
  shows "(st \<noteq> 0 \<longrightarrow> filter is_store (new_events w w') = [] \<and> mem w' = mem w \<and>
       mem4979 w' = mem4979 w) \<and>
    (st = 0 \<longrightarrow>
       (\<exists>v_lat v_lon v_alt.
          filter is_store (new_events w w') =
            [Store output Lat v_lat, Store output Lon v_lon, Store output Alt v_alt] \<and>
          mem4979 w' output =
            \<lparr>EPSG4979.lat = v_lat, EPSG4979.lon = v_lon, EPSG4979.alt = v_alt\<rparr> \<and>
          mem w' = (mem w)(output := v_lat, output + 1 := v_lon, output + 2 := v_alt)))"
proof (cases rule: run_cases[of input "output" _ E w A])
  case null
  with assms show ?thesis by (simp add: run_null new_events_def)
next
  case (context_failed s1)
  from run_context_failed[OF this, of A] assms show ?thesis
    by (auto simp add: new_events_def mem4979_def)
next
  case (resolution_failed ctx s1 s2)
  from run_resolution_failed[OF this, of A] assms show ?thesis
    by (auto simp add: new_events_def mem4979_def)
next
  case (apply_failed ctx s1 P s2 c_out s3 err s4)
  from run_apply_failed[OF this] assms show ?thesis
    by (auto simp add: new_events_def mem4979_def)
next
  case (success ctx s1 P s2 c_out s3 s4)
  from run_success[OF this] assms show ?thesis
    by (auto simp add: new_events_def mem4979_def)
qed

theorem output_all_or_nothing_witness:
  "mem (snd (epsg4979_from_epsg9705 sample_engine sample_ops 8 16
       (sample_world True True (- 5000)))) = mem (sample_world True True (- 5000)) \<and>
   filter is_store (new_events (sample_world True True (- 5000))
     (snd (epsg4979_from_epsg9705 sample_engine sample_ops 8 16
        (sample_world True True (- 5000))))) = [] \<and>
   (\<exists>v_lat v_lon v_alt.
      filter is_store (new_events (sample_world True True 10)
        (snd (epsg4979_from_epsg9705 sample_engine sample_ops 8 16
           (sample_world True True 10)))) =
        [Store 16 Lat v_lat, Store 16 Lon v_lon, Store 16 Alt v_alt] \<and>
      mem4979 (snd (epsg4979_from_epsg9705 sample_engine sample_ops 8 16
          (sample_world True True 10))) 16 =
        \<lparr>EPSG4979.lat = v_lat, EPSG4979.lon = v_lon, EPSG4979.alt = v_alt\<rparr> \<and>
      mem (snd (epsg4979_from_epsg9705 sample_engine sample_ops 8 16
          (sample_world True True 10))) =
        (mem (sample_world True True 10))(16 := v_lat, 16 + 1 := v_lon, 16 + 2 := v_alt))"
proof -
  have ok: "fst (epsg4979_from_epsg9705 sample_engine sample_ops 8 16
      (sample_world True True 10)) = 0"
    by (simp add: sample_success)
  have bad: "fst (epsg4979_from_epsg9705 sample_engine sample_ops 8 16
      (sample_world True True (- 5000))) \<noteq> 0"
    by (simp add: sample_apply_failed)
  from ok bad
    output_all_or_nothing [of sample_engine sample_ops 8 16 "sample_world True True 10",
      OF surjective_pairing]
    output_all_or_nothing [of sample_engine sample_ops 8 16 "sample_world True True (- 5000)",
      OF surjective_pairing]
  show ?thesis by simp
qed

text \<open>
  C5. Angular units. Whatever the call passes to the transformation has, as latitude and
  longitude, the input's latitude and longitude multiplied by \<open>M_PI\<close> and then divided
  by \<open>180.0\<close>, and as height the input's height as it is. With status 0, the output's
  latitude and longitude are the result's angular components multiplied by \<open>180.0\<close>
  and then divided by \<open>M_PI\<close>, and the output's height is the result's height as it is.
  Each conversion is one multiplication and one division of doubles and nothing else.
\<close>

theorem angular_units:
  assumes "epsg4979_from_epsg9705 E A input output w = (st, w')"
  shows "(\<forall>P dir c_in c_out. Trans P dir c_in c_out \<in> set (new_events w w') \<longrightarrow>
       lpzt_phi c_in = fdiv A (fmul A (EPSG9705.lat (mem9705 w input)) (M_PI A)) (lit_180 A) \<and>
       lpzt_lam c_in = fdiv A (fmul A (EPSG9705.lon (mem9705 w input)) (M_PI A)) (lit_180 A) \<and>
       lpzt_z c_in = EPSG9705.alt (mem9705 w input)) \<and>
    (st = 0 \<longrightarrow>
       (\<exists>P c_in c_out. Trans P PJ_FWD c_in c_out \<in> set (new_events w w') \<and>
          EPSG4979.lat (mem4979 w' output) =
            fdiv A (fmul A (lpzt_phi c_out) (lit_180 A)) (M_PI A) \<and>
          EPSG4979.lon (mem4979 w' output) =
            fdiv A (fmul A (lpzt_lam c_out) (lit_180 A)) (M_PI A) \<and>
          EPSG4979.alt (mem4979 w' output) = lpzt_z c_out))"
proof (cases rule: run_cases[of input "output" _ E w A])
  case null
  with assms show ?thesis by (simp add: run_null new_events_def)
next
  case (context_failed s1)
  from run_context_failed[OF this, of A] assms show ?thesis
    by (auto simp add: new_events_def)
next
  case (resolution_failed ctx s1 s2)
  from run_resolution_failed[OF this, of A] assms show ?thesis
    by (auto simp add: new_events_def)
next
  case (apply_failed ctx s1 P s2 c_out s3 err s4)
  from run_apply_failed[OF this] assms show ?thesis
    by (auto simp add: new_events_def c_in_of_def proj_coord_def to_radians_def)
next
  case (success ctx s1 P s2 c_out s3 s4)
  from run_success[OF this] assms
  have st: "st = 0"
    and ev: "set (new_events w w') =
      {Context_create (Some ctx),
       Create_crs_to_crs ctx ''EPSG:9705'' ''EPSG:4979'' NULL (Some P),
       Load input Lat (EPSG9705.lat (mem9705 w input)),
       Load input Lon (EPSG9705.lon (mem9705 w input)),
       Load input Alt (EPSG9705.alt (mem9705 w input)),
       Trans P PJ_FWD (c_in_of A (mem9705 w input)) c_out,
       Errno P 0,
       Store output Lat (to_degrees A (lpzt_phi c_out)),
       Store output Lon (to_degrees A (lpzt_lam c_out)),
       Store output Alt (lpzt_z c_out),
       Destroy P, Context_destroy ctx}"
    and mem: "mem4979 w' output =
       \<lparr>EPSG4979.lat = fdiv A (fmul A (lpzt_phi c_out) (lit_180 A)) (M_PI A),
        EPSG4979.lon = fdiv A (fmul A (lpzt_lam c_out) (lit_180 A)) (M_PI A),
        EPSG4979.alt = lpzt_z c_out\<rparr>"
    by (simp_all add: new_events_def to_degrees_def mem4979_def)
  have inp: "\<forall>P dir c_in c_out. Trans P dir c_in c_out \<in> set (new_events w w') \<longrightarrow>
       lpzt_phi c_in = fdiv A (fmul A (EPSG9705.lat (mem9705 w input)) (M_PI A)) (lit_180 A) \<and>
       lpzt_lam c_in = fdiv A (fmul A (EPSG9705.lon (mem9705 w input)) (M_PI A)) (lit_180 A) \<and>
       lpzt_z c_in = EPSG9705.alt (mem9705 w input)"
    by (simp add: ev c_in_of_def proj_coord_def to_radians_def)
  have outp: "\<exists>P c_in c_out. Trans P PJ_FWD c_in c_out \<in> set (new_events w w') \<and>
          EPSG4979.lat (mem4979 w' output) =
            fdiv A (fmul A (lpzt_phi c_out) (lit_180 A)) (M_PI A) \<and>
          EPSG4979.lon (mem4979 w' output) =
            fdiv A (fmul A (lpzt_lam c_out) (lit_180 A)) (M_PI A) \<and>
          EPSG4979.alt (mem4979 w' output) = lpzt_z c_out"
  proof (intro exI conjI)
    show "Trans P PJ_FWD (c_in_of A (mem9705 w input)) c_out \<in> set (new_events w w')"
      by (simp add: ev)
  qed (simp_all add: mem)
  from inp outp show ?thesis by blast
qed

theorem angular_units_witness:
  "(\<exists>P c_in c_out.
      Trans P PJ_FWD c_in c_out \<in> set (new_events (sample_world True True 10)
        (snd (epsg4979_from_epsg9705 sample_engine sample_ops 8 16
           (sample_world True True 10)))) \<and>
      lpzt_phi c_in = 40 * pi / 180 \<and> lpzt_lam c_in = - 74 * pi / 180 \<and> lpzt_z c_in = 10 \<and>
      EPSG4979.lat (mem4979 (snd (epsg4979_from_epsg9705 sample_engine sample_ops 8 16
          (sample_world True True 10))) 16) = lpzt_phi c_out * 180 / pi \<and>
      EPSG4979.lon (mem4979 (snd (epsg4979_from_epsg9705 sample_engine sample_ops 8 16
          (sample_world True True 10))) 16) = lpzt_lam c_out * 180 / pi \<and>
      EPSG4979.alt (mem4979 (snd (epsg4979_from_epsg9705 sample_engine sample_ops 8 16
          (sample_world True True 10))) 16) = lpzt_z c_out)"
proof -
  let ?w = "sample_world True True 10"
  let ?r = "epsg4979_from_epsg9705 sample_engine sample_ops 8 16 ?w"
  have ok: "fst ?r = 0"
    by (simp add: sample_success)
  from angular_units [of sample_engine sample_ops 8 16 ?w, OF surjective_pairing]
  have a: "\<forall>P dir c_in c_out. Trans P dir c_in c_out \<in> set (new_events ?w (snd ?r)) \<longrightarrow>
       lpzt_phi c_in = 40 * pi / 180 \<and> lpzt_lam c_in = - 74 * pi / 180 \<and> lpzt_z c_in = 10"
    and b: "fst ?r = 0 \<longrightarrow> (\<exists>P c_in c_out. Trans P PJ_FWD c_in c_out \<in> set (new_events ?w (snd ?r)) \<and>
          EPSG4979.lat (mem4979 (snd ?r) 16) = lpzt_phi c_out * 180 / pi \<and>
          EPSG4979.lon (mem4979 (snd ?r) 16) = lpzt_lam c_out * 180 / pi \<and>
          EPSG4979.alt (mem4979 (snd ?r) 16) = lpzt_z c_out)"
    by (simp_all add: sample_ops_def sample_input)
  from b ok obtain P c_in c_out where
    t: "Trans P PJ_FWD c_in c_out \<in> set (new_events ?w (snd ?r))"
    and o: "EPSG4979.lat (mem4979 (snd ?r) 16) = lpzt_phi c_out * 180 / pi"
      "EPSG4979.lon (mem4979 (snd ?r) 16) = lpzt_lam c_out * 180 / pi"
      "EPSG4979.alt (mem4979 (snd ?r) 16) = lpzt_z c_out"
    by blast
  from a t have "lpzt_phi c_in = 40 * pi / 180 \<and> lpzt_lam c_in = - 74 * pi / 180 \<and> lpzt_z c_in = 10"
    by blast
  with t o show ?thesis by blast
qed

text \<open>
  C6. Coordinate ordering. Every transformation the call invokes is the forward one, on
  the coordinate whose four components are, in this order, the longitude in radians, the
  latitude in radians, the height and the constant 0. The call invokes it exactly once
  when its status is 0 or that of \<open>TransformationApplyError\<close>, and not at all
  otherwise.
\<close>

theorem coordinate_order:
  assumes "epsg4979_from_epsg9705 E A input output w = (st, w')"
  shows "(\<forall>P dir c_in c_out. Trans P dir c_in c_out \<in> set (new_events w w') \<longrightarrow>
       dir = PJ_FWD \<and>
       c_in = \<lparr>lpzt_lam = to_radians A (EPSG9705.lon (mem9705 w input)),
               lpzt_phi = to_radians A (EPSG9705.lat (mem9705 w input)),
               lpzt_z = EPSG9705.alt (mem9705 w input),
               lpzt_t = lit_0 A\<rparr>) \<and>
    (if st = 0 \<or> st = status_of TransformationApplyError
     then \<exists>P c_out. filter is_trans (new_events w w') =
       [Trans P PJ_FWD
          (proj_coord (to_radians A (EPSG9705.lon (mem9705 w input)))
             (to_radians A (EPSG9705.lat (mem9705 w input)))
             (EPSG9705.alt (mem9705 w input)) (lit_0 A)) c_out]
     else filter is_trans (new_events w w') = [])"
proof (cases rule: run_cases[of input "output" _ E w A])
  case null
  with assms show ?thesis by (simp add: run_null new_events_def)
next
  case (context_failed s1)
  from run_context_failed[OF this, of A] assms show ?thesis
    by (auto simp add: new_events_def)
next
  case (resolution_failed ctx s1 s2)
  from run_resolution_failed[OF this, of A] assms show ?thesis
    by (auto simp add: new_events_def)
next
  case (apply_failed ctx s1 P s2 c_out s3 err s4)
  from run_apply_failed[OF this] assms show ?thesis
    by (auto simp add: new_events_def c_in_of_def proj_coord_def)
next
  case (success ctx s1 P s2 c_out s3 s4)
  from run_success[OF this] assms show ?thesis
    by (auto simp add: new_events_def c_in_of_def proj_coord_def)
qed

theorem coordinate_order_witness:
  "\<exists>P c_out. filter is_trans (new_events (sample_world True True 10)
      (snd (epsg4979_from_epsg9705 sample_engine sample_ops 8 16 (sample_world True True 10)))) =
     [Trans P PJ_FWD
        \<lparr>lpzt_lam = - 74 * pi / 180, lpzt_phi = 40 * pi / 180, lpzt_z = 10, lpzt_t = 0\<rparr> c_out]"
proof -
  let ?w = "sample_world True True 10"
  let ?r = "epsg4979_from_epsg9705 sample_engine sample_ops 8 16 ?w"
  have ok: "fst ?r = 0"
    by (simp add: sample_success)
  from coordinate_order [of sample_engine sample_ops 8 16 ?w, OF surjective_pairing] ok
  show ?thesis
    by (simp add: sample_ops_def sample_input to_radians_def proj_coord_def)
qed

text \<open>
  C8. Resource balance. The events of every call keep the resource discipline and end
  with nothing live: the ledger run over them from the empty ledger ends empty. Every
  context the call was given is destroyed by it, and so is every transformation. On the
  resolution-failure path the call does nothing but create the context, fail to resolve,
  and destroy the context; on the apply-failure path and on the success path its last two
  events destroy the transformation and then the context it created before.
\<close>

theorem resources_balanced:
  assumes "epsg4979_from_epsg9705 E A input output w = (st, w')"
  shows "audit (new_events w w') ([], []) = Some ([], []) \<and>
    (\<forall>ctx. Context_create (Some ctx) \<in> set (new_events w w') \<longrightarrow>
       Context_destroy ctx \<in> set (new_events w w')) \<and>
    (\<forall>ctx src tgt area P. Create_crs_to_crs ctx src tgt area (Some P) \<in> set (new_events w w') \<longrightarrow>
       Destroy P \<in> set (new_events w w')) \<and>
    (st = status_of TransformationResolutionError \<longrightarrow>
       (\<exists>ctx. new_events w w' =
          [Context_create (Some ctx),
           Create_crs_to_crs ctx ''EPSG:9705'' ''EPSG:4979'' NULL None,
           Context_destroy ctx])) \<and>
    (st = status_of TransformationApplyError \<or> st = 0 \<longrightarrow>
       (\<exists>ctx P mid.
          new_events w w' =
            Context_create (Some ctx) #
            Create_crs_to_crs ctx ''EPSG:9705'' ''EPSG:4979'' NULL (Some P) #
            mid @ [Destroy P, Context_destroy ctx]))"
proof (cases rule: run_cases[of input "output" _ E w A])
  case null
  with assms show ?thesis by (simp add: run_null new_events_def)
next
  case (context_failed s1)
  from run_context_failed[OF this, of A] assms show ?thesis
    by (auto simp add: new_events_def)
next
  case (resolution_failed ctx s1 s2)
  from run_resolution_failed[OF this, of A] assms show ?thesis
    by (auto simp add: new_events_def)
next
  case (apply_failed ctx s1 P s2 c_out s3 err s4)
  from run_apply_failed[OF this] assms
  have st: "st = - 4" and ev: "new_events w w' =
      Context_create (Some ctx) #
      Create_crs_to_crs ctx ''EPSG:9705'' ''EPSG:4979'' NULL (Some P) #
      [Load input Lat (EPSG9705.lat (mem9705 w input)),
       Load input Lon (EPSG9705.lon (mem9705 w input)),
       Load input Alt (EPSG9705.alt (mem9705 w input)),
       Trans P PJ_FWD (c_in_of A (mem9705 w input)) c_out,
       Errno P err] @ [Destroy P, Context_destroy ctx]"
    by (simp_all add: new_events_def)
  have "\<exists>ctx P mid. new_events w w' =
      Context_create (Some ctx) #
      Create_crs_to_crs ctx ''EPSG:9705'' ''EPSG:4979'' NULL (Some P) #
      mid @ [Destroy P, Context_destroy ctx]"
    using ev by blast
  moreover have "audit (new_events w w') ([], []) = Some ([], [])"
    by (simp add: ev)
  ultimately show ?thesis using st by (simp add: ev)
next
  case (success ctx s1 P s2 c_out s3 s4)
  from run_success[OF this] assms
  have st: "st = 0" and ev: "new_events w w' =
      Context_create (Some ctx) #
      Create_crs_to_crs ctx ''EPSG:9705'' ''EPSG:4979'' NULL (Some P) #
      [Load input Lat (EPSG9705.lat (mem9705 w input)),
       Load input Lon (EPSG9705.lon (mem9705 w input)),
       Load input Alt (EPSG9705.alt (mem9705 w input)),
       Trans P PJ_FWD (c_in_of A (mem9705 w input)) c_out,
       Errno P 0,
       Store output Lat (to_degrees A (lpzt_phi c_out)),
       Store output Lon (to_degrees A (lpzt_lam c_out)),
       Store output Alt (lpzt_z c_out)] @ [Destroy P, Context_destroy ctx]"
    by (simp_all add: new_events_def)
  have "\<exists>ctx P mid. new_events w w' =
      Context_create (Some ctx) #
      Create_crs_to_crs ctx ''EPSG:9705'' ''EPSG:4979'' NULL (Some P) #
      mid @ [Destroy P, Context_destroy ctx]"
    using ev by blast
  moreover have "audit (new_events w w') ([], []) = Some ([], [])"
    by (simp add: ev)
  ultimately show ?thesis using st by (simp add: ev)
qed

theorem resources_balanced_witness:
  "audit (new_events (sample_world True True 10)
      (snd (epsg4979_from_epsg9705 sample_engine sample_ops 8 16 (sample_world True True 10))))
      ([], []) = Some ([], []) \<and>
   Context_destroy 1 \<in> set (new_events (sample_world True False 10)
      (snd (epsg4979_from_epsg9705 sample_engine sample_ops 8 16 (sample_world True False 10)))) \<and>
   Destroy 2 \<in> set (new_events (sample_world True True (- 5000))
      (snd (epsg4979_from_epsg9705 sample_engine sample_ops 8 16
         (sample_world True True (- 5000))))) \<and>
   (\<exists>ctx. new_events (sample_world True False 10)
      (snd (epsg4979_from_epsg9705 sample_engine sample_ops 8 16 (sample_world True False 10))) =
      [Context_create (Some ctx),
       Create_crs_to_crs ctx ''EPSG:9705'' ''EPSG:4979'' NULL None,
       Context_destroy ctx]) \<and>
   (\<exists>ctx P mid. new_events (sample_world True True 10)
      (snd (epsg4979_from_epsg9705 sample_engine sample_ops 8 16 (sample_world True True 10))) =
      Context_create (Some ctx) #
      Create_crs_to_crs ctx ''EPSG:9705'' ''EPSG:4979'' NULL (Some P) #
      mid @ [Destroy P, Context_destroy ctx])"
proof -
  let ?ok = "sample_world True True 10"
  let ?nogrid = "sample_world True False 10"
  let ?deep = "sample_world True True (- 5000)"
  have created: "Context_create (Some 1) \<in> set (new_events ?nogrid
      (snd (epsg4979_from_epsg9705 sample_engine sample_ops 8 16 ?nogrid)))"
    by (simp add: sample_resolution_failed new_events_def sample_trace)
  have resolved: "Create_crs_to_crs 1 ''EPSG:9705'' ''EPSG:4979'' 0 (Some 2) \<in> set (new_events ?deep
      (snd (epsg4979_from_epsg9705 sample_engine sample_ops 8 16 ?deep)))"
    by (simp add: sample_apply_failed new_events_def sample_trace)
  have st_ok: "fst (epsg4979_from_epsg9705 sample_engine sample_ops 8 16 ?ok) = 0"
    by (simp add: sample_success)
  have st_nogrid: "fst (epsg4979_from_epsg9705 sample_engine sample_ops 8 16 ?nogrid) =
      status_of TransformationResolutionError"
    by (simp add: sample_resolution_failed)
  from resources_balanced [of sample_engine sample_ops 8 16 ?ok, OF surjective_pairing] st_ok
  have a: "audit (new_events ?ok
      (snd (epsg4979_from_epsg9705 sample_engine sample_ops 8 16 ?ok))) ([], []) = Some ([], [])"
    and e: "\<exists>ctx P mid. new_events ?ok
      (snd (epsg4979_from_epsg9705 sample_engine sample_ops 8 16 ?ok)) =
      Context_create (Some ctx) #
      Create_crs_to_crs ctx ''EPSG:9705'' ''EPSG:4979'' NULL (Some P) #
      mid @ [Destroy P, Context_destroy ctx]"
    by simp_all
  from resources_balanced [of sample_engine sample_ops 8 16 ?nogrid, OF surjective_pairing]
    created st_nogrid
  have b: "Context_destroy 1 \<in> set (new_events ?nogrid
      (snd (epsg4979_from_epsg9705 sample_engine sample_ops 8 16 ?nogrid)))"
    and d: "\<exists>ctx. new_events ?nogrid
      (snd (epsg4979_from_epsg9705 sample_engine sample_ops 8 16 ?nogrid)) =
      [Context_create (Some ctx),
       Create_crs_to_crs ctx ''EPSG:9705'' ''EPSG:4979'' NULL None,
       Context_destroy ctx]"
    by blast+
  from resources_balanced [of sample_engine sample_ops 8 16 ?deep, OF surjective_pairing]
    resolved
  have c: "Destroy 2 \<in> set (new_events ?deep
      (snd (epsg4979_from_epsg9705 sample_engine sample_ops 8 16 ?deep)))"
    by blast
  from a b c d e show ?thesis by blast
qed

text \<open>
  C9. No validation of the input values. Let the input structure hold any three values
  \<open>v\<close> at all (nothing restricts them: out of range, or not finite) and let both pointers
  be non-null. The status is never that of \<open>InvalidArgument\<close>. It is that of
  \<open>ContextCreationError\<close> or of \<open>TransformationResolutionError\<close> exactly when it is
  so for the values the structure held before, so the values play no part in these. In
  every other case the forward transformation is invoked on the coordinate converted from
  \<open>v\<close>, and the status is 0 or that of \<open>TransformationApplyError\<close>.
\<close>

theorem input_values_not_validated:
  assumes "input \<noteq> NULL" and "output \<noteq> NULL"
    and "epsg4979_from_epsg9705 E A input output
           (w\<lparr>mem := put9705 input v (mem w)\<rparr>) = (st, w')"
  shows "st \<noteq> status_of InvalidArgument \<and>
    ((st = status_of ContextCreationError) =
       (fst (epsg4979_from_epsg9705 E A input output w) = status_of ContextCreationError)) \<and>
    ((st = status_of TransformationResolutionError) =
       (fst (epsg4979_from_epsg9705 E A input output w) =
          status_of TransformationResolutionError)) \<and>
    (st \<noteq> status_of ContextCreationError \<and> st \<noteq> status_of TransformationResolutionError \<longrightarrow>
       (st = 0 \<or> st = status_of TransformationApplyError) \<and>
       (\<exists>P c_out.
          Trans P PJ_FWD
            \<lparr>lpzt_lam = to_radians A (EPSG9705.lon v),
             lpzt_phi = to_radians A (EPSG9705.lat v),
             lpzt_z = EPSG9705.alt v,
             lpzt_t = lit_0 A\<rparr> c_out
          \<in> set (new_events (w\<lparr>mem := put9705 input v (mem w)\<rparr>) w')))"
proof -
  let ?wv = "w\<lparr>mem := put9705 input v (mem w)\<rparr>"
  have v: "mem9705 ?wv input = v"
    by (rule mem9705_put9705)
  have st: "st = fst (epsg4979_from_epsg9705 E A input output ?wv)"
    using assms(3) by simp
  have c2: "(st = status_of ContextCreationError) =
       (fst (epsg4979_from_epsg9705 E A input output w) = status_of ContextCreationError)"
    using status_context_failed_iff[OF assms(1,2), of E A ?wv]
      status_context_failed_iff[OF assms(1,2), of E A w]
    by (simp add: st)
  have c3: "(st = status_of TransformationResolutionError) =
       (fst (epsg4979_from_epsg9705 E A input output w) =
          status_of TransformationResolutionError)"
    using status_resolution_failed_iff[OF assms(1,2), of E A ?wv]
      status_resolution_failed_iff[OF assms(1,2), of E A w]
    by (simp add: st)
  have rest: "st \<noteq> status_of InvalidArgument \<and>
    (st \<noteq> status_of ContextCreationError \<and> st \<noteq> status_of TransformationResolutionError \<longrightarrow>
       (st = 0 \<or> st = status_of TransformationApplyError) \<and>
       (\<exists>P c_out.
          Trans P PJ_FWD
            \<lparr>lpzt_lam = to_radians A (EPSG9705.lon v),
             lpzt_phi = to_radians A (EPSG9705.lat v),
             lpzt_z = EPSG9705.alt v,
             lpzt_t = lit_0 A\<rparr> c_out
          \<in> set (new_events ?wv w')))"
  proof (cases rule: run_cases[of input "output" _ E ?wv A])
    case null
    with assms show ?thesis by simp
  next
    case (context_failed s1)
    from run_context_failed[OF this, of A] assms(3) show ?thesis by auto
  next
    case (resolution_failed ctx s1 s2)
    from run_resolution_failed[OF this, of A] assms(3) show ?thesis by auto
  next
    case (apply_failed ctx s1 P s2 c_out s3 err s4)
    from run_apply_failed[OF this] assms(3) show ?thesis
      unfolding v by (auto simp add: new_events_def c_in_of_def proj_coord_def)
  next
    case (success ctx s1 P s2 c_out s3 s4)
    from run_success[OF this] assms(3) show ?thesis
      unfolding v by (auto simp add: new_events_def c_in_of_def proj_coord_def)
  qed
  from c2 c3 rest show ?thesis by blast
qed

theorem input_values_not_validated_witness:
  "fst (epsg4979_from_epsg9705 sample_engine sample_ops 8 16
      ((sample_world True True 10)\<lparr>mem := put9705 8
         \<lparr>EPSG9705.lat = 1000, EPSG9705.lon = - 123456, EPSG9705.alt = 10\<rparr>
         (mem (sample_world True True 10))\<rparr>)) = 0 \<and>
   (\<exists>P c_out.
      Trans P PJ_FWD
        \<lparr>lpzt_lam = - 123456 * pi / 180, lpzt_phi = 1000 * pi / 180, lpzt_z = 10, lpzt_t = 0\<rparr>
        c_out
      \<in> set (new_events
          ((sample_world True True 10)\<lparr>mem := put9705 8
             \<lparr>EPSG9705.lat = 1000, EPSG9705.lon = - 123456, EPSG9705.alt = 10\<rparr>
             (mem (sample_world True True 10))\<rparr>)
          (snd (epsg4979_from_epsg9705 sample_engine sample_ops 8 16
             ((sample_world True True 10)\<lparr>mem := put9705 8
                \<lparr>EPSG9705.lat = 1000, EPSG9705.lon = - 123456, EPSG9705.alt = 10\<rparr>
                (mem (sample_world True True 10))\<rparr>)))))"
proof -
  let ?v = "\<lparr>EPSG9705.lat = 1000, EPSG9705.lon = - 123456, EPSG9705.alt = (10::real)\<rparr>"
  let ?wv = "(sample_world True True 10)\<lparr>mem := put9705 8 ?v (mem (sample_world True True 10))\<rparr>"
  have nn: "(8::nat) \<noteq> NULL" "(16::nat) \<noteq> NULL"
    by (simp_all add: NULL_def)
  have ok: "fst (epsg4979_from_epsg9705 sample_engine sample_ops 8 16 ?wv) = 0"
    by (simp add: epsg4979_from_epsg9705_def lib_defs sample_defs put9705_def Let_def)
  from input_values_not_validated [OF nn surjective_pairing,
      of sample_engine sample_ops ?v "sample_world True True 10"] ok
  show ?thesis
    by (simp add: sample_ops_def to_radians_def)
qed

text \<open>
  C10. Determinism, and what a call changes in the memory. Take two calls against the
  same library in the same library state, with pointers that are null in the one call
  exactly when they are in the other, and with input structures that hold the same three
  values. Whatever else differs (the addresses, whether the structures overlap, the
  previous contents of the output structures, the traces so far), the two calls return the
  same status, leave the library in the same state, and with status 0 leave equal output
  structures. Every store of a call goes through its output pointer, and no address
  outside the output structure changes; so the input structure is left as it was
  whenever the two structures do not overlap.
\<close>

theorem deterministic:
  assumes "lib_state w1 = lib_state w2"
    and "(i1 = NULL) = (i2 = NULL)" and "(o1 = NULL) = (o2 = NULL)"
    and "mem9705 w1 i1 = mem9705 w2 i2"
    and "epsg4979_from_epsg9705 E A i1 o1 w1 = (st1, w1')"
    and "epsg4979_from_epsg9705 E A i2 o2 w2 = (st2, w2')"
  shows "st1 = st2 \<and> lib_state w1' = lib_state w2' \<and>
    (st1 = 0 \<longrightarrow> mem4979 w1' o1 = mem4979 w2' o2) \<and>
    (\<forall>p f v. Store p f v \<in> set (new_events w1 w1') \<longrightarrow> p = o1) \<and>
    (\<forall>p f v. Store p f v \<in> set (new_events w2 w2') \<longrightarrow> p = o2) \<and>
    (\<forall>a. a \<notin> cells o1 \<longrightarrow> mem w1' a = mem w1 a) \<and>
    (\<forall>a. a \<notin> cells o2 \<longrightarrow> mem w2' a = mem w2 a) \<and>
    (cells i1 \<inter> cells o1 = {} \<longrightarrow> mem9705 w1' i1 = mem9705 w1 i1) \<and>
    (cells i2 \<inter> cells o2 = {} \<longrightarrow> mem9705 w2' i2 = mem9705 w2 i2)"
proof (cases rule: run_cases[of i1 o1 _ E w1 A])
  case null
  with assms(2,3) have "i2 = NULL \<or> o2 = NULL" by simp
  with null assms show ?thesis by (simp add: run_null new_events_def)
next
  case (context_failed s1)
  with assms(1-4) have "i2 \<noteq> NULL" "o2 \<noteq> NULL"
    "lib_context_create E (lib_state w2) = (None, s1)"
    by simp_all
  from run_context_failed[OF this, of A] run_context_failed[OF context_failed, of A] assms(5,6)
  show ?thesis by (auto simp add: new_events_def mem9705_def)
next
  case (resolution_failed ctx s1 s2)
  with assms(1-4) have "i2 \<noteq> NULL" "o2 \<noteq> NULL"
    "lib_context_create E (lib_state w2) = (Some ctx, s1)"
    "lib_create_crs_to_crs E ctx ''EPSG:9705'' ''EPSG:4979'' NULL s1 = (None, s2)"
    by simp_all
  from run_resolution_failed[OF this, of A] run_resolution_failed[OF resolution_failed, of A]
    assms(5,6)
  show ?thesis by (auto simp add: new_events_def mem9705_def)
next
  case (apply_failed ctx s1 P s2 c_out s3 err s4)
  with assms(1-4) have "i2 \<noteq> NULL" "o2 \<noteq> NULL"
    "lib_context_create E (lib_state w2) = (Some ctx, s1)"
    "lib_create_crs_to_crs E ctx ''EPSG:9705'' ''EPSG:4979'' NULL s1 = (Some P, s2)"
    "lib_trans E P PJ_FWD (c_in_of A (mem9705 w2 i2)) s2 = (c_out, s3)"
    "lib_errno E P s3 = (err, s4)" "err \<noteq> 0"
    by simp_all
  from run_apply_failed[OF this] run_apply_failed[OF apply_failed] assms(5,6)
  show ?thesis by (auto simp add: new_events_def mem9705_def)
next
  case (success ctx s1 P s2 c_out s3 s4)
  with assms(1-4) have "i2 \<noteq> NULL" "o2 \<noteq> NULL"
    "lib_context_create E (lib_state w2) = (Some ctx, s1)"
    "lib_create_crs_to_crs E ctx ''EPSG:9705'' ''EPSG:4979'' NULL s1 = (Some P, s2)"
    "lib_trans E P PJ_FWD (c_in_of A (mem9705 w2 i2)) s2 = (c_out, s3)"
    "lib_errno E P s3 = (0, s4)"
    by simp_all
  from run_success[OF this] run_success[OF success] assms(5,6)
  have r: "st1 = 0" "st2 = 0" "lib_state w1' = lib_state w2'"
    "mem w1' = (mem w1)(o1 := to_degrees A (lpzt_phi c_out),
       o1 + 1 := to_degrees A (lpzt_lam c_out), o1 + 2 := lpzt_z c_out)"
    "mem w2' = (mem w2)(o2 := to_degrees A (lpzt_phi c_out),
       o2 + 1 := to_degrees A (lpzt_lam c_out), o2 + 2 := lpzt_z c_out)"
    "\<forall>p f v. Store p f v \<in> set (new_events w1 w1') \<longrightarrow> p = o1"
    "\<forall>p f v. Store p f v \<in> set (new_events w2 w2') \<longrightarrow> p = o2"
    by (auto simp add: new_events_def)
  have out: "mem4979 w1' o1 = mem4979 w2' o2"
    by (simp add: mem4979_def r(4,5))
  have f1: "\<forall>a. a \<notin> cells o1 \<longrightarrow> mem w1' a = mem w1 a"
    by (simp add: cells_def r(4))
  have f2: "\<forall>a. a \<notin> cells o2 \<longrightarrow> mem w2' a = mem w2 a"
    by (simp add: cells_def r(5))
  have g1: "cells i1 \<inter> cells o1 = {} \<longrightarrow> mem9705 w1' i1 = mem9705 w1 i1"
    using f1 by (auto simp add: mem9705_def cells_def)
  have g2: "cells i2 \<inter> cells o2 = {} \<longrightarrow> mem9705 w2' i2 = mem9705 w2 i2"
    using f2 by (auto simp add: mem9705_def cells_def)
  from r(1,2,3,6,7) out f1 f2 g1 g2 show ?thesis by blast
qed

theorem deterministic_witness:
  "fst (epsg4979_from_epsg9705 sample_engine sample_ops 8 16 (sample_world True True 10)) =
   fst (epsg4979_from_epsg9705 sample_engine sample_ops 8 8 (sample_world True True 10)) \<and>
   mem4979 (snd (epsg4979_from_epsg9705 sample_engine sample_ops 8 16
     (sample_world True True 10))) 16 =
   mem4979 (snd (epsg4979_from_epsg9705 sample_engine sample_ops 8 8
     (sample_world True True 10))) 8 \<and>
   mem9705 (snd (epsg4979_from_epsg9705 sample_engine sample_ops 8 16
     (sample_world True True 10))) 8 = mem9705 (sample_world True True 10) 8"
proof -
  let ?w = "sample_world True True 10"
  have h1: "lib_state ?w = lib_state ?w"
    by simp
  have h2: "((8::nat) = NULL) = ((8::nat) = NULL)"
    by simp
  have h3: "((16::nat) = NULL) = ((8::nat) = NULL)"
    by (simp add: NULL_def)
  have h4: "mem9705 ?w 8 = mem9705 ?w 8"
    by simp
  have apart: "cells 8 \<inter> cells 16 = {}"
    by (simp add: cells_def)
  have ok: "fst (epsg4979_from_epsg9705 sample_engine sample_ops 8 16 ?w) = 0"
    by (simp add: sample_success)
  from deterministic [OF h1 h2 h3 h4 surjective_pairing surjective_pairing,
      where E = sample_engine and A = sample_ops] ok apart
  show ?thesis by simp
qed

text \<open>
  The input structure is not left as it was by every call (C10 without the condition that
  the structures do not overlap): with the output pointer equal to the input pointer, the
  successful sample call leaves another height in the structure behind the input pointer
  than it found there.
\<close>

theorem input_structure_overwritten:
  "mem9705 (snd (epsg4979_from_epsg9705 sample_engine sample_ops 8 8
     (sample_world True True 10))) 8 \<noteq> mem9705 (sample_world True True 10) 8"
  unfolding sample_aliased by (simp add: mem9705_def sample_world_def)

end
